theory Spec2Isabelle
  imports Complex_Main "HOL-Library.Sublist" "HOL-Library.List_Lexorder" "HOL-Library.Char_ord"
begin

section \<open>Record files: the recorder's view of \<^verbatim>\<open>os.File\<close>\<close>

text \<open>
  A byte is a \<^typ>\<open>char\<close>; Go's \<^verbatim>\<open>[]byte\<close> and \<^verbatim>\<open>string\<close> are both
  \<^typ>\<open>char list\<close>.  An open file is its contents, the offset of the handle and whether
  \<^verbatim>\<open>Close\<close> has been called.  Every method of a closed \<^verbatim>\<open>os.File\<close> fails with
  \<^verbatim>\<open>os.ErrClosed\<close>; a seek to a negative offset fails with \<^verbatim>\<open>EINVAL\<close>.  Writes to an open
  handle store all the bytes they are given (a full disk is not modelled).
\<close>

type_synonym bytes = "char list"

datatype error = ErrClosed | ErrInvalid | ErrMarshal | ErrUnexpectedEOF
  | ErrNoNewline | ErrHeaderJSON | ErrSeek | ErrParseResponse | ErrUpstream string | ErrOpen

record osfile =
  content :: bytes
  pos :: nat
  closed :: bool

definition HeaderLen :: nat where
  "HeaderLen = 2048"

definition FileWrite :: "osfile \<Rightarrow> bytes \<Rightarrow> osfile \<times> nat \<times> error option" where
  "FileWrite f b =
     (if closed f then (f, 0, Some ErrClosed)
      else
        let c = content f @ replicate (pos f - length (content f)) (CHR 0x00)
        in (f\<lparr>content := take (pos f) c @ b @ drop (pos f + length b) c,
               pos := pos f + length b\<rparr>, length b, None))"

definition FileSeek :: "osfile \<Rightarrow> int \<Rightarrow> osfile \<times> error option" where
  "FileSeek f off =
     (if closed f then (f, Some ErrClosed)
      else if off < 0 then (f, Some ErrInvalid)
      else (f\<lparr>pos := nat off\<rparr>, None))"

definition FileClose :: "osfile \<Rightarrow> osfile \<times> error option" where
  "FileClose f = (if closed f then (f, Some ErrClosed) else (f\<lparr>closed := True\<rparr>, None))"

section \<open>The record header (package recorder)\<close>

text \<open>
  The structs of package \<^verbatim>\<open>recorder\<close>.  Go's \<^verbatim>\<open>int\<close> and \<^verbatim>\<open>int64\<close> counters are
  \<^typ>\<open>int\<close>: they count bytes of one file, tokens and milliseconds, far below \<open>2^63\<close>.
  \<^verbatim>\<open>time.Time\<close> is an abstract timestamp in nanoseconds.  A nil pointer is \<^const>\<open>None\<close>.
\<close>

record PromptTokenDetails =
  CachedTokens :: int

record UsageInfo =
  PromptTokens :: int
  CompletionTokens :: int
  TotalTokens :: int
  PromptTokenDetails :: "PromptTokenDetails option"

record LayoutInfo =
  ReqHeaderLen :: int
  ReqBodyLen :: int
  ResHeaderLen :: int
  ResBodyLen :: int
  IsStream :: bool

record MetaData =
  RequestID :: string
  Time :: int
  Model :: string
  URL :: string
  Method :: string
  StatusCode :: int
  DurationMs :: int
  TTFTMs :: int
  ClientIP :: string
  ContentLength :: int
  Error :: string

record RecordHeader =
  Version :: string
  Meta :: MetaData
  Layout :: LayoutInfo
  Usage :: UsageInfo

record LogInfo =
  File :: "osfile option"
  Path :: string
  Header :: RecordHeader

text \<open>The zero values Go gives to fields a composite literal leaves out.\<close>

definition zeroUsage :: UsageInfo where
  "zeroUsage = \<lparr>PromptTokens = 0, CompletionTokens = 0, TotalTokens = 0, PromptTokenDetails = None\<rparr>"

definition zeroLayout :: LayoutInfo where
  "zeroLayout = \<lparr>ReqHeaderLen = 0, ReqBodyLen = 0, ResHeaderLen = 0, ResBodyLen = 0, IsStream = False\<rparr>"

subsection \<open>UpdateLogFile\<close>

text \<open>
  Go's builtin \<^verbatim>\<open>copy(dst, src)\<close> overwrites the first \<open>min (len dst) (len src)\<close> bytes of
  \<open>dst\<close>.  \<^verbatim>\<open>json.Marshal\<close> is a parameter: it returns the serialised header or an error.
\<close>

definition copy :: "bytes \<Rightarrow> bytes \<Rightarrow> bytes" where
  "copy dst src = (let n = min (length dst) (length src) in take n src @ drop n dst)"

definition finalBlock :: "bytes \<Rightarrow> bytes" where
  "finalBlock jsonData =
     (let blank = replicate HeaderLen (CHR '' '');
          filled = (if length jsonData > HeaderLen - 1
                    then copy blank (take (HeaderLen - 1) jsonData)
                    else copy blank jsonData)
      in filled[HeaderLen - 1 := CHR 0x0A])"

definition UpdateLogFile :: "(RecordHeader \<Rightarrow> error + bytes) \<Rightarrow> LogInfo \<Rightarrow> LogInfo \<times> error option" where
  "UpdateLogFile marshal info =
     (case File info of
        None \<Rightarrow> (info, None)
      | Some f \<Rightarrow>
          (case marshal (Header info) of
             Inl e \<Rightarrow> (info\<lparr>File := Some (fst (FileClose f))\<rparr>, Some e)
           | Inr jsonData \<Rightarrow>
               (case FileSeek f 0 of
                  (f1, Some e) \<Rightarrow> (info\<lparr>File := Some (fst (FileClose f1))\<rparr>, Some e)
                | (f1, None) \<Rightarrow>
                    (case FileWrite f1 (finalBlock jsonData) of
                       (f2, _, Some e) \<Rightarrow> (info\<lparr>File := Some (fst (FileClose f2))\<rparr>, Some e)
                     | (f2, _, None) \<Rightarrow> (info\<lparr>File := Some (fst (FileClose f2))\<rparr>, None)))))"

section \<open>The instrumented response writer (package proxy)\<close>

text \<open>
  The writer's clock is explicit: \<^verbatim>\<open>Write\<close> is given the milliseconds elapsed since
  \<^verbatim>\<open>startTime\<close>, and the number of bytes the wrapped writer reports written.
\<close>

record InstrumentedResponseWriter =
  statusCode :: int
  bytesWritten :: int
  ttft :: int
  firstByte :: bool

definition NewInstrumentedResponseWriter :: InstrumentedResponseWriter where
  "NewInstrumentedResponseWriter = \<lparr>statusCode = 200, bytesWritten = 0, ttft = - 1, firstByte = True\<rparr>"

datatype rwcall = WriteHeader int | Write int int | Flush

fun rwstep :: "InstrumentedResponseWriter \<Rightarrow> rwcall \<Rightarrow> InstrumentedResponseWriter" where
  "rwstep rw (WriteHeader code) = rw\<lparr>statusCode := code\<rparr>"
| "rwstep rw (Write sinceStart n) =
     (let rw1 = (if firstByte rw then rw\<lparr>ttft := sinceStart, firstByte := False\<rparr> else rw)
      in rw1\<lparr>bytesWritten := bytesWritten rw1 + n\<rparr>)"
| "rwstep rw Flush = rw"

definition GetMetrics :: "InstrumentedResponseWriter \<Rightarrow> int \<times> int \<times> int" where
  "GetMetrics rw = (statusCode rw, bytesWritten rw, ttft rw)"

fun isWrite :: "rwcall \<Rightarrow> bool" where
  "isWrite (Write _ _) = True"
| "isWrite _ = False"

fun isWriteHeader :: "rwcall \<Rightarrow> bool" where
  "isWriteHeader (WriteHeader _) = True"
| "isWriteHeader _ = False"

section \<open>HTTP headers\<close>

text \<open>
  \<^verbatim>\<open>http.Header\<close> is a \<^verbatim>\<open>map[string][]string\<close>; here an association list whose first
  entry for a key is the map's entry.  Every call site below passes a key in canonical form,
  and the server stores keys in canonical form, so the key is looked up as it is written.
  \<^verbatim>\<open>Get\<close> returns the first value of the key or the empty string, \<^verbatim>\<open>Set\<close> replaces the
  entry by a single value.
\<close>

type_synonym header = "(string \<times> string list) list"

definition HeaderGet :: "header \<Rightarrow> string \<Rightarrow> string" where
  "HeaderGet h k = (case map_of h k of None \<Rightarrow> [] | Some [] \<Rightarrow> [] | Some (v # _) \<Rightarrow> v)"

fun HeaderSet :: "header \<Rightarrow> string \<Rightarrow> string \<Rightarrow> header" where
  "HeaderSet [] k v = [(k, [v])]"
| "HeaderSet ((k', vs) # h) k v = (if k' = k then (k, [v]) # h else (k', vs) # HeaderSet h k v)"

definition CRLF :: bytes where
  "CRLF = [CHR 0x0D, CHR 0x0A]"

text \<open>
  \<^verbatim>\<open>Header.WriteSubset\<close>: the keys in sorted order, the excluded ones left out, one line
  \<^verbatim>\<open>Key: value\r\n\<close> per value; in a value each CR and LF becomes a space, then leading and
  trailing spaces and tabs are trimmed (\<^verbatim>\<open>textproto.TrimString\<close>).
\<close>

definition headerNewlineToSpace :: "string \<Rightarrow> string" where
  "headerNewlineToSpace v = map (\<lambda>c. if c = CHR 0x0A \<or> c = CHR 0x0D then CHR '' '' else c) v"

definition isASCIISpace :: "char \<Rightarrow> bool" where
  "isASCIISpace c = (c = CHR '' '' \<or> c = CHR 0x09 \<or> c = CHR 0x0A \<or> c = CHR 0x0D)"

definition TrimString :: "string \<Rightarrow> string" where
  "TrimString v = rev (dropWhile isASCIISpace (rev (dropWhile isASCIISpace v)))"

definition headerLine :: "string \<Rightarrow> string \<Rightarrow> bytes" where
  "headerLine k v = k @ '': '' @ TrimString (headerNewlineToSpace v) @ CRLF"

definition WriteSubset :: "header \<Rightarrow> string list \<Rightarrow> bytes" where
  "WriteSubset h exclude =
     concat (map (\<lambda>(k, vs). concat (map (headerLine k) vs))
              (sort_key fst (filter (\<lambda>(k, vs). k \<notin> set exclude) h)))"

section \<open>The usage sniffer (package proxy)\<close>

text \<open>
  \<^verbatim>\<open>bytes.IndexByte\<close> and \<^verbatim>\<open>strings.Index\<close> return \<open>-1\<close> when there is no occurrence.
  \<^verbatim>\<open>bytes.Contains\<close> is \<^const>\<open>sublist\<close>, \<^verbatim>\<open>strings.HasPrefix\<close> is \<^const>\<open>prefix\<close>.
\<close>

fun IndexByte :: "bytes \<Rightarrow> char \<Rightarrow> int" where
  "IndexByte [] c = - 1"
| "IndexByte (x # xs) c =
     (if x = c then 0 else (let i = IndexByte xs c in if i = - 1 then - 1 else i + 1))"

fun Index :: "bytes \<Rightarrow> bytes \<Rightarrow> int" where
  "Index [] sep = (if sep = [] then 0 else - 1)"
| "Index (x # xs) sep =
     (if prefix sep (x # xs) then 0
      else (let i = Index xs sep in if i = - 1 then - 1 else i + 1))"

fun LastIndex :: "bytes \<Rightarrow> bytes \<Rightarrow> int" where
  "LastIndex [] sep = (if sep = [] then 0 else - 1)"
| "LastIndex (x # xs) sep =
     (let i = LastIndex xs sep in
      if i \<noteq> - 1 then i + 1 else if prefix sep (x # xs) then 0 else - 1)"

text \<open>
  \<^verbatim>\<open>strings.TrimSpace\<close> on the ASCII white space (tab, LF, VT, FF, CR, space); the white
  space of Unicode beyond ASCII is left alone here.
\<close>

definition isSpace :: "char \<Rightarrow> bool" where
  "isSpace c = (c = CHR '' '' \<or> c = CHR 0x09 \<or> c = CHR 0x0A \<or> c = CHR 0x0B \<or> c = CHR 0x0C \<or> c = CHR 0x0D)"

definition TrimSpace :: "string \<Rightarrow> string" where
  "TrimSpace s = rev (dropWhile isSpace (rev (dropWhile isSpace s)))"

definition TrimPrefix :: "string \<Rightarrow> string \<Rightarrow> string" where
  "TrimPrefix s p = (if prefix p s then drop (length p) s else s)"

text \<open>
  The sniffer's own fields.  Its \<^verbatim>\<open>File\<close>, \<^verbatim>\<open>Count\<close> and \<^verbatim>\<open>Usage\<close> point into the
  \<^verbatim>\<open>LogInfo\<close> of the request, so the functions below take and return that \<^typ>\<open>LogInfo\<close>
  beside the sniffer.
\<close>

record UsageSniffer =
  IsStreamS :: bool
  lineBuf :: bytes
  tailBuf :: bytes

text \<open>
  A write through the \<^verbatim>\<open>LogInfo\<close>'s file handle.  A nil \<^verbatim>\<open>*os.File\<close> fails with
  \<^verbatim>\<open>os.ErrInvalid\<close>.
\<close>

definition InfoWrite :: "LogInfo \<Rightarrow> bytes \<Rightarrow> LogInfo \<times> nat \<times> error option" where
  "InfoWrite info b =
     (case File info of
        None \<Rightarrow> (info, 0, Some ErrInvalid)
      | Some f \<Rightarrow> (case FileWrite f b of (f', n, e) \<Rightarrow> (info\<lparr>File := Some f'\<rparr>, n, e)))"

text \<open>
  The line loop of \<^verbatim>\<open>sniffStream\<close>.  The decoder is \<^verbatim>\<open>json.Unmarshal\<close> into
  \<^verbatim>\<open>struct { Usage *UsageInfo }\<close>: \<^const>\<open>None\<close> is a decoding error, \<open>Some None\<close> an object
  with no usage, \<open>Some (Some u)\<close> an object with usage \<open>u\<close>.
\<close>

definition usageMark :: bytes where
  "usageMark = [CHR 0x22] @ ''usage'' @ [CHR 0x22]"

definition sniffLine :: "(bytes \<Rightarrow> UsageInfo option option) \<Rightarrow> UsageInfo \<Rightarrow> bytes \<Rightarrow> UsageInfo" where
  "sniffLine decode usage line =
     (if \<not> sublist usageMark line then usage
      else if prefix ''data:'' line then
        (case decode (TrimSpace (TrimPrefix line ''data:'')) of
           Some (Some u) \<Rightarrow> (if TotalTokens u > 0 then u else usage)
         | _ \<Rightarrow> usage)
      else usage)"

lemma IndexByte_range: "IndexByte xs c \<noteq> - 1 \<Longrightarrow> 0 \<le> IndexByte xs c \<and> IndexByte xs c < int (length xs)"
  by (induction xs) (auto simp: Let_def split: if_splits)

function sniffLoop :: "(bytes \<Rightarrow> UsageInfo option option) \<Rightarrow> UsageInfo \<Rightarrow> bytes \<Rightarrow> UsageInfo \<times> bytes" where
  "sniffLoop decode usage buf =
     (let idx = IndexByte buf (CHR 0x0A) in
      if idx = - 1 then (usage, buf)
      else sniffLoop decode (sniffLine decode usage (take (nat idx) buf)) (drop (nat idx + 1) buf))"
  by pat_completeness auto
termination
proof (relation "measure (\<lambda>(decode, usage, buf). length buf)")
  show "wf (measure (\<lambda>(decode, usage, buf). length buf))" by simp
next
  fix decode :: "bytes \<Rightarrow> UsageInfo option option" and usage :: UsageInfo and buf :: bytes and idx :: int
  assume "idx = IndexByte buf (CHR 0x0A)" and "idx \<noteq> - 1"
  then have "0 < length buf" using IndexByte_range[of buf "CHR 0x0A"] by auto
  then show "((decode, sniffLine decode usage (take (nat idx) buf), drop (nat idx + 1) buf), (decode, usage, buf))
      \<in> measure (\<lambda>(decode, usage, buf). length buf)"
    by simp
qed

declare sniffLoop.simps [simp del]

definition sniffStream :: "(bytes \<Rightarrow> UsageInfo option option) \<Rightarrow> UsageInfo \<times> bytes \<Rightarrow> bytes \<Rightarrow> UsageInfo \<times> bytes" where
  "sniffStream decode st chunk =
     (let buf = snd st @ chunk;
          capped = (if length buf > 64 * 1024 then drop (length buf - 64 * 1024) buf else buf)
      in sniffLoop decode (fst st) capped)"

definition sniffNonStream :: "bytes \<Rightarrow> bytes \<Rightarrow> bytes" where
  "sniffNonStream tail chunk =
     (let maxBuf = 4096 in
      if length tail + length chunk > maxBuf then
        (let combined = tail @ chunk in drop (length combined - maxBuf) combined)
      else tail @ chunk)"

text \<open>
  \<^verbatim>\<open>Read\<close> is given the bytes the upstream body returned (\<open>n > 0\<close> is a non-empty list).
\<close>

definition SnifferRead :: "(bytes \<Rightarrow> UsageInfo option option) \<Rightarrow> LogInfo \<times> UsageSniffer \<Rightarrow> bytes
    \<Rightarrow> LogInfo \<times> UsageSniffer" where
  "SnifferRead decode st data =
     (case st of (info, s) \<Rightarrow>
        if data = [] then (info, s)
        else
          (case InfoWrite info data of (info1, written, wErr) \<Rightarrow>
             let info2 = (if wErr = None
                          then info1\<lparr>Header := (Header info1)\<lparr>Layout := (Layout (Header info1))
                                 \<lparr>ResBodyLen := ResBodyLen (Layout (Header info1)) + int written\<rparr>\<rparr>\<rparr>
                          else info1)
             in if IsStreamS s then
                  (case sniffStream decode (Usage (Header info2), lineBuf s) data of
                     (u, buf) \<Rightarrow> (info2\<lparr>Header := (Header info2)\<lparr>Usage := u\<rparr>\<rparr>, s\<lparr>lineBuf := buf\<rparr>))
                else (info2, s\<lparr>tailBuf := sniffNonStream (tailBuf s) data\<rparr>)))"

text \<open>
  \<^verbatim>\<open>extractUsageFromTail\<close>: the brace matching runs over the text from the first \<open>{\<close> after
  the last \<^verbatim>\<open>"usage"\<close>; \<^verbatim>\<open>braceEnd\<close> returns the index just past the matching \<open>}\<close>, or
  \<open>-1\<close>.  The decoder is \<^verbatim>\<open>json.Unmarshal\<close> into a \<^verbatim>\<open>UsageInfo\<close>.
\<close>

fun braceEnd :: "bytes \<Rightarrow> int \<Rightarrow> int \<Rightarrow> int" where
  "braceEnd [] depth i = - 1"
| "braceEnd (r # rs) depth i =
     (if r = CHR ''{'' then braceEnd rs (depth + 1) (i + 1)
      else if r = CHR ''}'' then
        (if depth - 1 = 0 then i + 1 else braceEnd rs (depth - 1) (i + 1))
      else braceEnd rs depth (i + 1))"

definition extractUsageFromTail :: "(bytes \<Rightarrow> UsageInfo option) \<Rightarrow> bytes \<Rightarrow> UsageInfo \<Rightarrow> UsageInfo" where
  "extractUsageFromTail decodeUsage data target =
     (if length data = 0 then target
      else
        let idx = LastIndex data usageMark in
        if idx = - 1 then target
        else
          let segment = drop (nat idx) data;
              startBrace = Index segment ''{'' in
          if startBrace = - 1 then target
          else
            let jsonPart = drop (nat startBrace) segment;
                endBrace = braceEnd jsonPart 0 0 in
            if endBrace \<noteq> - 1 then
              (case decodeUsage (take (nat endBrace) jsonPart) of
                 Some u \<Rightarrow> (if TotalTokens u > 0 then u else target)
               | None \<Rightarrow> target)
            else target)"

definition SnifferClose :: "(bytes \<Rightarrow> UsageInfo option) \<Rightarrow> LogInfo \<times> UsageSniffer \<Rightarrow> LogInfo" where
  "SnifferClose decodeUsage st =
     (case st of (info, s) \<Rightarrow>
        if \<not> IsStreamS s \<and> TotalTokens (Usage (Header info)) = 0
        then info\<lparr>Header := (Header info)\<lparr>Usage := extractUsageFromTail decodeUsage (tailBuf s) (Usage (Header info))\<rparr>\<rparr>
        else info)"

subsection \<open>ModifyResponse\<close>

text \<open>
  The upstream response as the proxy reads it: protocol, status text, status code and headers.
  The function writes the delimiter and the response head to the record file, sets the layout
  and returns the sniffer that replaces the body.
\<close>

record response =
  Proto_resp :: string
  Status :: string
  StatusCode_resp :: int
  Header_resp :: header

definition isStreamResponse :: "response \<Rightarrow> bool" where
  "isStreamResponse resp =
     (sublist ''text/event-stream'' (HeaderGet (Header_resp resp) ''Content-Type'')
      \<or> HeaderGet (Header_resp resp) ''Transfer-Encoding'' = ''chunked'')"

definition responseHead :: "response \<Rightarrow> bytes" where
  "responseHead resp = Proto_resp resp @ '' '' @ Status resp @ CRLF @ WriteSubset (Header_resp resp) [] @ CRLF"

definition ModifyResponse :: "LogInfo \<Rightarrow> response \<Rightarrow> LogInfo \<times> UsageSniffer" where
  "ModifyResponse logInfo resp =
     (case InfoWrite logInfo [CHR 0x0A] of (info1, _, _) \<Rightarrow>
      case InfoWrite info1 (responseHead resp) of (info2, n, _) \<Rightarrow>
        let info3 = info2\<lparr>Header := (Header info2)\<lparr>Layout := (Layout (Header info2))\<lparr>ResHeaderLen := int n\<rparr>\<rparr>\<rparr>;
            isStream = isStreamResponse resp;
            info4 = (if isStream
                     then info3\<lparr>Header := (Header info3)\<lparr>Layout := (Layout (Header info3))\<lparr>IsStream := True\<rparr>\<rparr>\<rparr>
                     else info3)
        in (info4, \<lparr>IsStreamS = isStream, lineBuf = [], tailBuf = []\<rparr>))"

section \<open>Requests and the stream-options injector (package proxy)\<close>

text \<open>
  The fields of \<^verbatim>\<open>http.Request\<close> the proxy reads or writes.  The body is the byte sequence
  \<^verbatim>\<open>io.ReadAll\<close> returns (a body that fails to read is not modelled).
\<close>

record request =
  Method_req :: string
  RequestURI :: string
  Proto_req :: string
  Host :: string
  URL_req :: string
  URLPath :: string
  TransferEncoding :: "string list"
  Header_req :: header
  Body_req :: bytes
  ContentLength_req :: int
  RemoteAddr :: string

text \<open>
  A decoded JSON value, as \<^verbatim>\<open>json.Unmarshal\<close> builds it in an \<^verbatim>\<open>interface{}\<close>: nil, bool,
  \<^verbatim>\<open>float64\<close> (kept abstract as \<open>'n\<close>), string, slice, and \<^verbatim>\<open>map[string]interface{}\<close>.
\<close>

datatype 'n json = JNull | JBool bool | JNumber 'n | JString string
  | JArray "'n json list" | JObject "string \<Rightarrow> 'n json option"

type_synonym 'n payload = "string \<Rightarrow> 'n json option"

text \<open>\<^verbatim>\<open>fmt.Sprint\<close> of a non-negative \<^verbatim>\<open>int\<close>: its decimal digits.\<close>

definition digit :: "nat \<Rightarrow> char" where
  "digit d = char_of (48 + d)"

fun Sprint :: "nat \<Rightarrow> string" where
  "Sprint n = (if n < 10 then [digit n] else Sprint (n div 10) @ [digit (n mod 10)])"

declare Sprint.simps [simp del]

text \<open>
  Step 5 of \<^verbatim>\<open>ensureStreamOptions\<close>: the payload after the injection, and whether it was
  changed.
\<close>

definition injectStreamOptions :: "'n payload \<Rightarrow> 'n payload \<times> bool" where
  "injectStreamOptions payload =
     (case payload ''stream_options'' of
        Some (JObject opts) \<Rightarrow>
          (case opts ''include_usage'' of
             Some (JBool True) \<Rightarrow> (payload, False)
           | _ \<Rightarrow> (payload(''stream_options'' \<mapsto> JObject (opts(''include_usage'' \<mapsto> JBool True))), True))
      | _ \<Rightarrow> (payload(''stream_options'' \<mapsto> JObject [''include_usage'' \<mapsto> JBool True]), True))"

text \<open>
  \<^verbatim>\<open>json.Unmarshal\<close> into a \<^verbatim>\<open>map[string]interface{}\<close> and \<^verbatim>\<open>json.Marshal\<close> of such a
  map are parameters; \<^const>\<open>None\<close> is their error.
\<close>

definition ensureStreamOptions ::
    "(bytes \<Rightarrow> 'n payload option) \<Rightarrow> ('n payload \<Rightarrow> bytes option) \<Rightarrow> request \<Rightarrow> request" where
  "ensureStreamOptions unmarshal marshal req =
     (if Method_req req \<noteq> ''POST''
         \<or> \<not> sublist ''application/json'' (HeaderGet (Header_req req) ''Content-Type'')
      then req
      else
        (case unmarshal (Body_req req) of
           None \<Rightarrow> req
         | Some payload \<Rightarrow>
             (case payload ''stream'' of
                Some (JBool True) \<Rightarrow>
                  (case injectStreamOptions payload of
                     (payload', updated) \<Rightarrow>
                       if updated then
                         (case marshal payload' of
                            Some newBytes \<Rightarrow>
                              req\<lparr>Header_req := HeaderSet (Header_req req) ''Content-Length'' (Sprint (length newBytes)),
                                  Body_req := newBytes,
                                  ContentLength_req := int (length newBytes)\<rparr>
                          | None \<Rightarrow> req)
                       else req)
              | _ \<Rightarrow> req)))"

section \<open>PrepareLogFile (package recorder)\<close>

text \<open>
  \<^verbatim>\<open>httputil.DumpRequest(req, false)\<close>: the request line, the \<^verbatim>\<open>Host\<close> line unless the
  request URI is absolute, the \<^verbatim>\<open>Transfer-Encoding\<close> line if there is one, the headers but
  \<^verbatim>\<open>Host\<close>, \<^verbatim>\<open>Transfer-Encoding\<close> and \<^verbatim>\<open>Trailer\<close>, and an empty line.
\<close>

fun Join :: "string list \<Rightarrow> string \<Rightarrow> string" where
  "Join [] sep = []"
| "Join [x] sep = x"
| "Join (x # y # ys) sep = x @ sep @ Join (y # ys) sep"

definition DumpRequest :: "request \<Rightarrow> bytes" where
  "DumpRequest req =
     (if Method_req req = [] then ''GET'' else Method_req req) @ '' '' @ RequestURI req @ '' '' @ Proto_req req @ CRLF
     @ (if \<not> (prefix ''http://'' (RequestURI req) \<or> prefix ''https://'' (RequestURI req)) \<and> Host req \<noteq> []
        then ''Host: '' @ Host req @ CRLF else [])
     @ (if TransferEncoding req \<noteq> []
        then ''Transfer-Encoding: '' @ Join (TransferEncoding req) '','' @ CRLF else [])
     @ WriteSubset (Header_req req) [''Host'', ''Transfer-Encoding'', ''Trailer'']
     @ CRLF"

text \<open>
  What \<^verbatim>\<open>PrepareLogFile\<close> takes from outside the program: the clock (formatted by the three
  layouts of the directory, the layout of the file name, and as nanoseconds), the results of
  \<^verbatim>\<open>os.MkdirAll\<close> and \<^verbatim>\<open>os.Create\<close> for a path, the host \<^verbatim>\<open>url.Parse\<close> finds in the
  upstream URL, and \<^verbatim>\<open>json.Unmarshal\<close> into \<^verbatim>\<open>struct { Model string }\<close>.  A created file is
  empty and open.
\<close>

record environment =
  nowYear :: string
  nowMonth :: string
  nowDay :: string
  nowStamp :: string
  nowNanosecond :: nat
  nowUnixNano :: nat
  MkdirAll :: "string \<Rightarrow> error option"
  Create :: "string \<Rightarrow> error option"
  urlHost :: "string \<Rightarrow> string option"
  decodeModel :: "bytes \<Rightarrow> string option"

record Recorder =
  OutputDir :: string
  MaskKey :: bool

definition padding :: bytes where
  "padding = (replicate HeaderLen (CHR '' ''))[HeaderLen - 1 := CHR 0x0A]"

definition modelNameOf :: "environment \<Rightarrow> request \<Rightarrow> string" where
  "modelNameOf env req =
     (let bodyBytes = Body_req req;
          modelName = (if length bodyBytes > 0 then
                         (case decodeModel env bodyBytes of
                            Some m \<Rightarrow> (if m \<noteq> [] then m else ''unknown-model'')
                          | None \<Rightarrow> ''unknown-model'')
                       else ''unknown-model'')
      in if modelName = ''unknown-model'' \<and> suffix ''/models'' (URLPath req) then ''list_models''
         else modelName)"

definition logPathOf :: "Recorder \<Rightarrow> environment \<Rightarrow> string \<Rightarrow> string \<Rightarrow> string \<times> string" where
  "logPathOf r env siteURL modelName =
     (let siteHost = (case urlHost env siteURL of Some h \<Rightarrow> h | None \<Rightarrow> ''unknown'');
          dirPath = Join [OutputDir r, siteHost, modelName, nowYear env, nowMonth env, nowDay env] ''/'';
          fileName = nowStamp env @ ''_'' @ Sprint (nowNanosecond env) @ ''.http''
      in (dirPath, Join [dirPath, fileName] ''/''))"

text \<open>
  Step 5: the dump is taken of the request with the masked header, and the header is then set
  back to the value \<^verbatim>\<open>Get\<close> had returned.
\<close>

definition maskedDump :: "Recorder \<Rightarrow> request \<Rightarrow> bytes \<times> request" where
  "maskedDump r req =
     (let originalKey = HeaderGet (Header_req req) ''Authorization'';
          req1 = (if MaskKey r \<and> originalKey \<noteq> []
                  then req\<lparr>Header_req := HeaderSet (Header_req req) ''Authorization'' ''Bearer fake-key-logging''\<rparr>
                  else req);
          reqDump = DumpRequest req1;
          req2 = (if MaskKey r \<and> originalKey \<noteq> []
                  then req1\<lparr>Header_req := HeaderSet (Header_req req1) ''Authorization'' originalKey\<rparr>
                  else req1)
      in (reqDump, req2))"

definition PrepareLogFile :: "Recorder \<Rightarrow> environment \<Rightarrow> request \<Rightarrow> string \<Rightarrow> error + (LogInfo \<times> request)" where
  "PrepareLogFile r env req siteURL =
     (let bodyBytes = Body_req req;
          modelName = modelNameOf env req
      in case logPathOf r env siteURL modelName of (dirPath, logPath) \<Rightarrow>
         (case MkdirAll env dirPath of
            Some e \<Rightarrow> Inl e
          | None \<Rightarrow>
              (case Create env logPath of
                 Some e \<Rightarrow> Inl e
               | None \<Rightarrow>
                   (case FileWrite \<lparr>content = [], pos = 0, closed = False\<rparr> padding of
                      (f1, _, Some e) \<Rightarrow> Inl e
                    | (f1, _, None) \<Rightarrow>
                        (case maskedDump r req of (reqDump, req2) \<Rightarrow>
                           (case FileWrite f1 reqDump of
                              (f2, _, Some e) \<Rightarrow> Inl e
                            | (f2, nHead, None) \<Rightarrow>
                                (case FileWrite f2 bodyBytes of
                                   (f3, _, Some e) \<Rightarrow> Inl e
                                 | (f3, nBody, None) \<Rightarrow>
                                     Inr (\<lparr>File = Some f3, Path = logPath,
                                           Header = \<lparr>Version = ''LLM_PROXY_V2'',
                                             Meta = \<lparr>RequestID = Sprint (nowUnixNano env), Time = int (nowUnixNano env),
                                                     Model = modelName, URL = URL_req req2, Method = Method_req req2,
                                                     StatusCode = 0, DurationMs = 0, TTFTMs = 0,
                                                     ClientIP = RemoteAddr req2, ContentLength = 0, Error = []\<rparr>,
                                             Layout = zeroLayout\<lparr>ReqHeaderLen := int nHead, ReqBodyLen := int nBody\<rparr>,
                                             Usage = zeroUsage\<rparr>\<rparr>, req2))))))))"

section \<open>The chaos injector (package chaos)\<close>

text \<open>
  A rule's rate and the draws of \<^verbatim>\<open>rand.Float64\<close> are real numbers; the random source is
  the sequence of its draws, and \<^verbatim>\<open>Evaluate\<close> takes the next one for every rule whose model
  matches.  \<^verbatim>\<open>strings.EqualFold\<close> is a parameter.  A duration is its nanoseconds.
\<close>

record ChaosRule =
  Model_rule :: string
  Rate :: real
  Action :: string
  Delay :: int
  StatusCode_rule :: int
  Message :: string

record Config =
  ServerPort :: string
  UpstreamBaseURL :: string
  UpstreamApiKey :: string
  DebugOutputDir :: string
  DebugMaskKey :: bool
  ChaosEnabled :: bool
  ChaosRules :: "ChaosRule list"

record Result =
  ShouldInject :: bool
  Action_res :: string
  Delay_res :: int
  StatusCode_res :: int
  Message_res :: string
  RuleDescription :: string

definition noInject :: Result where
  "noInject = \<lparr>ShouldInject = False, Action_res = [], Delay_res = 0, StatusCode_res = 0,
                Message_res = [], RuleDescription = []\<rparr>"

definition fireRule :: "ChaosRule \<Rightarrow> Result" where
  "fireRule rule =
     (let res = \<lparr>ShouldInject = True, Action_res = Action rule, Delay_res = Delay rule,
                 StatusCode_res = StatusCode_rule rule, Message_res = Message rule,
                 RuleDescription = ''Rule[Model='' @ Model_rule rule @ '', Action='' @ Action rule @ '']''\<rparr>;
          res1 = (if Action_res res = ''error'' \<and> StatusCode_res res = 0
                  then res\<lparr>StatusCode_res := 500\<rparr> else res);
          res2 = (if Action_res res1 = ''error'' \<and> Message_res res1 = []
                  then res1\<lparr>Message_res := ''Chaos Injection Error''\<rparr> else res1)
      in res2)"

fun evalRules :: "(string \<Rightarrow> string \<Rightarrow> bool) \<Rightarrow> (nat \<Rightarrow> real) \<Rightarrow> nat \<Rightarrow> ChaosRule list \<Rightarrow> string \<Rightarrow> Result" where
  "evalRules EqualFold draw i [] modelName = noInject"
| "evalRules EqualFold draw i (rule # rules) modelName =
     (if Model_rule rule \<noteq> ''*'' \<and> \<not> EqualFold (Model_rule rule) modelName
      then evalRules EqualFold draw i rules modelName
      else if draw i < Rate rule then fireRule rule
      else evalRules EqualFold draw (i + 1) rules modelName)"

definition Evaluate :: "Config \<Rightarrow> (string \<Rightarrow> string \<Rightarrow> bool) \<Rightarrow> (nat \<Rightarrow> real) \<Rightarrow> string \<Rightarrow> Result" where
  "Evaluate cfg EqualFold draw modelName =
     (if \<not> ChaosEnabled cfg then noInject
      else evalRules EqualFold draw 0 (ChaosRules cfg) modelName)"

section \<open>The handler (package proxy)\<close>

text \<open>
  The JSON functions of the standard library the handler calls, as parameters:
  \<^verbatim>\<open>Unmarshal\<close> and \<^verbatim>\<open>Marshal\<close> of a request payload, \<^verbatim>\<open>Marshal\<close> of the record header,
  \<^verbatim>\<open>Unmarshal\<close> of a stream chunk and of a usage object.
\<close>

record 'n jsonlib =
  unmarshalPayload :: "bytes \<Rightarrow> 'n payload option"
  marshalPayload :: "'n payload \<Rightarrow> bytes option"
  marshalHeader :: "RecordHeader \<Rightarrow> error + bytes"
  decodeChunk :: "bytes \<Rightarrow> UsageInfo option option"
  decodeUsage :: "bytes \<Rightarrow> UsageInfo option"

text \<open>
  The rest of the world of one request: the clock readings (\<^verbatim>\<open>time.Since(start)\<close> at the end,
  and at the \<open>k\<close>-th body chunk), the random source, \<^verbatim>\<open>strings.EqualFold\<close>, and the upstream:
  what the transport's round trip returns for the outgoing request, an error or the response
  with the chunks its body's \<^verbatim>\<open>Read\<close> calls return.
\<close>

record world =
  durationMs :: int
  sinceStartMs :: "nat \<Rightarrow> int"
  draws :: "nat \<Rightarrow> real"
  EqualFold :: "string \<Rightarrow> string \<Rightarrow> bool"
  roundTrip :: "request \<Rightarrow> string + (response \<times> bytes list)"

datatype event = Slept int | UpstreamCall request

text \<open>
  The director of the reverse proxy, as far as the handler adds to it: the host, the upstream
  key and the identity encoding (the library's own rewriting of the URL is left out).
\<close>

definition Director :: "Config \<Rightarrow> environment \<Rightarrow> request \<Rightarrow> request" where
  "Director cfg env req =
     (let targetHost = (case urlHost env (UpstreamBaseURL cfg) of Some h \<Rightarrow> h | None \<Rightarrow> [])
      in req\<lparr>Host := targetHost,
             Header_req := HeaderSet (HeaderSet (Header_req req) ''Authorization'' (''Bearer '' @ UpstreamApiKey cfg))
                             ''Accept-Encoding'' ''identity''\<rparr>)"

text \<open>
  One turn of the proxy's copy loop: a \<^verbatim>\<open>Read\<close> of the sniffer, then the \<^verbatim>\<open>Write\<close> of
  the bytes read to the instrumented writer.
\<close>

definition copyChunk :: "'n jsonlib \<Rightarrow> world
    \<Rightarrow> (LogInfo \<times> UsageSniffer) \<times> InstrumentedResponseWriter \<times> bytes \<times> nat \<Rightarrow> bytes
    \<Rightarrow> (LogInfo \<times> UsageSniffer) \<times> InstrumentedResponseWriter \<times> bytes \<times> nat" where
  "copyChunk lib w acc data =
     (case acc of (st, irw, out, k) \<Rightarrow>
        (SnifferRead (decodeChunk lib) st data,
         (if data = [] then irw else rwstep irw (Write (sinceStartMs w k) (int (length data)))),
         out @ data, k + 1))"

text \<open>
  \<^verbatim>\<open>proxy.ServeHTTP\<close>: the round trip; on an error the error handler (close the file, answer
  502); on a response \<^verbatim>\<open>ModifyResponse\<close>, the status line, the copy loop and \<^verbatim>\<open>Close\<close>.
\<close>

definition proxyServe :: "'n jsonlib \<Rightarrow> Config \<Rightarrow> environment \<Rightarrow> world
    \<Rightarrow> InstrumentedResponseWriter \<Rightarrow> LogInfo \<Rightarrow> request
    \<Rightarrow> event list \<times> InstrumentedResponseWriter \<times> LogInfo \<times> bytes" where
  "proxyServe lib cfg env w irw logInfo req =
     (let outreq = Director cfg env req in
      case roundTrip w outreq of
        Inl err \<Rightarrow>
          (let info1 = logInfo\<lparr>File := map_option (\<lambda>f. fst (FileClose f)) (File logInfo)\<rparr>;
               msg = ''Proxy Error: '' @ err @ [CHR 0x0A];
               irw1 = rwstep (rwstep irw (WriteHeader 502)) (Write (sinceStartMs w 0) (int (length msg)))
           in ([UpstreamCall outreq], irw1, info1, msg))
      | Inr (resp, chunks) \<Rightarrow>
          (case ModifyResponse logInfo resp of st0 \<Rightarrow>
           case foldl (copyChunk lib w) (st0, rwstep irw (WriteHeader (StatusCode_resp resp)), [], 0) chunks of
             (st, irw1, out, k) \<Rightarrow>
               ([UpstreamCall outreq], irw1, SnifferClose (decodeUsage lib) st, out)))"

record outcome =
  events :: "event list"
  clientStatus :: int
  clientBody :: bytes
  finalInfo :: "LogInfo option"
  updateErr :: "error option"

definition ServeHTTP :: "'n jsonlib \<Rightarrow> Config \<Rightarrow> environment \<Rightarrow> world \<Rightarrow> request \<Rightarrow> outcome" where
  "ServeHTTP lib cfg env w r =
     (let r1 = ensureStreamOptions (unmarshalPayload lib) (marshalPayload lib) r in
      case PrepareLogFile \<lparr>OutputDir = DebugOutputDir cfg, MaskKey = DebugMaskKey cfg\<rparr> env r1 (UpstreamBaseURL cfg) of
        Inl e \<Rightarrow>
          \<lparr>events = [], clientStatus = 500, clientBody = ''Internal Logging Error'' @ [CHR 0x0A],
           finalInfo = None, updateErr = None\<rparr>
      | Inr (logInfo, r2) \<Rightarrow>
          (let irw = NewInstrumentedResponseWriter;
               chaosRes = Evaluate cfg (EqualFold w) (draws w) (Model (Meta (Header logInfo)));
               slept = (if ShouldInject chaosRes \<and> Action_res chaosRes = ''delay''
                        then [Slept (Delay_res chaosRes)] else [])
           in case proxyServe lib cfg env w irw logInfo r2 of
                (called, irw1, info1, body) \<Rightarrow>
                  (case GetMetrics irw1 of
                     (code, written, first) \<Rightarrow>
                       (let info2 = info1\<lparr>Header := (Header info1)\<lparr>Meta := (Meta (Header info1))
                                      \<lparr>StatusCode := code, DurationMs := durationMs w,
                                       TTFTMs := first, ContentLength := written\<rparr>\<rparr>\<rparr>
                        in case UpdateLogFile (marshalHeader lib) info2 of
                             (info3, uErr) \<Rightarrow>
                               \<lparr>events = slept @ called, clientStatus = code, clientBody = body,
                                finalInfo = Some info3, updateErr = uErr\<rparr>))))"

text \<open>
  The request as the recorder sees it (after the injector), the recorder the handler builds
  from the configuration, and the request the proxy sends upstream.
\<close>

definition recorded :: "'n jsonlib \<Rightarrow> request \<Rightarrow> request" where
  "recorded lib r = ensureStreamOptions (unmarshalPayload lib) (marshalPayload lib) r"

definition recorderOf :: "Config \<Rightarrow> Recorder" where
  "recorderOf cfg = \<lparr>OutputDir = DebugOutputDir cfg, MaskKey = DebugMaskKey cfg\<rparr>"

definition outgoing :: "'n jsonlib \<Rightarrow> Config \<Rightarrow> environment \<Rightarrow> request \<Rightarrow> request" where
  "outgoing lib cfg env r = Director cfg env (snd (maskedDump (recorderOf cfg) (recorded lib r)))"

text \<open>A \<^typ>\<open>LogInfo\<close> whose handle is open at the end of a file with the given contents.\<close>

definition tracks :: "LogInfo \<Rightarrow> bytes \<Rightarrow> bool" where
  "tracks info c = (case File info of None \<Rightarrow> False
                    | Some f \<Rightarrow> content f = c \<and> pos f = length c \<and> \<not> closed f)"

section \<open>The replay transport (package replay)\<close>

text \<open>
  The layout part of the header as the transport decodes it.  The fields are \<^verbatim>\<open>int64\<close>; the
  sum that gives the response offset wraps around as Go's addition does.
\<close>

record fileHeader =
  Version_fh :: string
  ReqHeaderLen_fh :: int
  ReqBodyLen_fh :: int
  ResHeaderLen_fh :: int
  ResBodyLen_fh :: int

definition wrap64 :: "int \<Rightarrow> int" where
  "wrap64 x = (x + 2 ^ 63) mod 2 ^ 64 - 2 ^ 63"

text \<open>
  \<^verbatim>\<open>RoundTrip\<close> on the contents of the file \<^verbatim>\<open>os.Open\<close> returns (\<^const>\<open>None\<close>: the file
  cannot be opened).  \<^verbatim>\<open>json.Unmarshal\<close> into a \<^verbatim>\<open>fileHeader\<close> and \<^verbatim>\<open>http.ReadResponse\<close>
  are parameters; the latter is given the bytes from the offset of the handle to the end of the
  file.  \<^verbatim>\<open>io.ReadFull\<close> fails on a file shorter than the buffer; \<^verbatim>\<open>Seek\<close> fails on a
  negative offset and succeeds beyond the end of the file.
\<close>

definition RoundTrip :: "(bytes \<Rightarrow> fileHeader option) \<Rightarrow> (bytes \<Rightarrow> 'r option) \<Rightarrow> bytes option \<Rightarrow> error + 'r" where
  "RoundTrip unmarshalHeader ReadResponse opened =
     (case opened of
        None \<Rightarrow> Inl ErrOpen
      | Some f \<Rightarrow>
          if length f < HeaderLen then Inl ErrUnexpectedEOF
          else
            let headerData = take HeaderLen f;
                idx = IndexByte headerData (CHR 0x0A)
            in if idx = - 1 then Inl ErrNoNewline
               else
                 (case unmarshalHeader (take (nat idx) headerData) of
                    None \<Rightarrow> Inl ErrHeaderJSON
                  | Some meta \<Rightarrow>
                      let respOffset = wrap64 (int HeaderLen + ReqHeaderLen_fh meta + ReqBodyLen_fh meta + 1)
                      in if respOffset < 0 then Inl ErrSeek
                         else
                           (case ReadResponse (drop (nat respOffset) f) of
                              None \<Rightarrow> Inl ErrParseResponse
                            | Some resp \<Rightarrow> Inr resp)))"

section \<open>What the stream parser is to compute, in the words of the specification\<close>


fun pendingAcc :: "bytes \<Rightarrow> bytes \<Rightarrow> bytes" where
  "pendingAcc cur [] = cur"
| "pendingAcc cur (c # cs) = (if c = CHR 0x0A then pendingAcc [] cs else pendingAcc (cur @ [c]) cs)"


definition pendingLine :: "bytes \<Rightarrow> bytes" where
  "pendingLine b = pendingAcc [] b"




section \<open>Example inputs\<close>

definition demoHeader :: RecordHeader where
  "demoHeader = \<lparr>Version = ''LLM_PROXY_V2'',
     Meta = \<lparr>RequestID = ''1'', Time = 1, Model = ''qwen3-max'', URL = ''/v1/chat/completions'',
             Method = ''POST'', StatusCode = 200, DurationMs = 5, TTFTMs = 2, ClientIP = ''127.0.0.1:9'',
             ContentLength = 2, Error = ''''\<rparr>,
     Layout = \<lparr>ReqHeaderLen = 3, ReqBodyLen = 2, ResHeaderLen = 4, ResBodyLen = 2, IsStream = False\<rparr>,
     Usage = zeroUsage\<rparr>"

definition demoFile :: osfile where
  "demoFile = \<lparr>content = replicate 2047 (CHR '' '') @ [CHR 0x0A] @ ''GETab'' @ [CHR 0x0A] @ ''HTTPok'',
               pos = 2060, closed = False\<rparr>"

definition demoInfo :: LogInfo where
  "demoInfo = \<lparr>File = Some demoFile, Path = ''out/x.http'', Header = demoHeader\<rparr>"

definition demoMarshal :: "RecordHeader \<Rightarrow> error + bytes" where
  "demoMarshal h = Inr (''{\"version\":\"'' @ Version h @ ''\"}'')"

definition longMarshal :: "RecordHeader \<Rightarrow> error + bytes" where
  "longMarshal h = Inr (replicate 3000 (CHR ''x''))"


definition noDecode :: "bytes \<Rightarrow> UsageInfo option option" where
  "noDecode b = None"

definition demoResponse :: response where
  "demoResponse = \<lparr>Proto_resp = ''HTTP/1.1'', Status = ''200 OK'', StatusCode_resp = 200,
     Header_resp = [(''Content-Type'', [''application/json''])]\<rparr>"

definition demoLib :: "nat jsonlib" where
  "demoLib = \<lparr>unmarshalPayload = (\<lambda>b. None), marshalPayload = (\<lambda>p. None),
     marshalHeader = demoMarshal, decodeChunk = noDecode, decodeUsage = (\<lambda>b. None)\<rparr>"

definition demoEnv :: environment where
  "demoEnv = \<lparr>nowYear = ''2026'', nowMonth = ''01'', nowDay = ''02'', nowStamp = ''20260102_030405'',
     nowNanosecond = 7, nowUnixNano = 1767323045000000007,
     MkdirAll = (\<lambda>p. None), Create = (\<lambda>p. None),
     urlHost = (\<lambda>u. Some ''api.example.com''), decodeModel = (\<lambda>b. Some ''qwen3-max'')\<rparr>"

definition demoWorld :: world where
  "demoWorld = \<lparr>durationMs = 9, sinceStartMs = (\<lambda>k. 3 + int k), draws = (\<lambda>k. 1 / 2),
     EqualFold = (\<lambda>a b. a = b),
     roundTrip = (\<lambda>q. Inr (demoResponse, [''{\"id\":'', ''1}'']))\<rparr>"

definition demoRequest :: request where
  "demoRequest = \<lparr>Method_req = ''POST'', RequestURI = ''/v1/chat/completions'', Proto_req = ''HTTP/1.1'',
     Host = ''localhost:8080'', URL_req = ''/v1/chat/completions'', URLPath = ''/v1/chat/completions'',
     TransferEncoding = [],
     Header_req = [(''Authorization'', [''Bearer sk-secret'']), (''Content-Type'', [''application/json''])],
     Body_req = ''{\"model\":\"qwen3-max\"}'', ContentLength_req = 21, RemoteAddr = ''127.0.0.1:5000''\<rparr>"

definition demoConfig :: Config where
  "demoConfig = \<lparr>ServerPort = ''8080'', UpstreamBaseURL = ''https://api.example.com'',
     UpstreamApiKey = ''sk-upstream'', DebugOutputDir = ''logs'', DebugMaskKey = True,
     ChaosEnabled = False, ChaosRules = []\<rparr>"

definition chaosConfig :: Config where
  "chaosConfig = demoConfig\<lparr>ChaosEnabled := True,
     ChaosRules := [\<lparr>Model_rule = ''*'', Rate = 1, Action = ''error'', Delay = 0,
                     StatusCode_rule = 429, Message = []\<rparr>]\<rparr>"


text \<open>
  A two-entry stand-in for the JSON codec: it knows the body \<^verbatim>\<open>{"stream":true}\<close> and the
  body with the injected option, which is also what it serialises every payload to.
\<close>

definition streamBody :: bytes where
  "streamBody = ''{\"stream\":true}''"

definition injectedBody :: bytes where
  "injectedBody = ''{\"stream\":true,\"stream_options\":{\"include_usage\":true}}''"

definition streamPayload :: "nat payload" where
  "streamPayload = [''stream'' \<mapsto> JBool True]"

definition toyUnmarshal :: "bytes \<Rightarrow> nat payload option" where
  "toyUnmarshal b = (if b = streamBody then Some streamPayload
                     else if b = injectedBody then Some (fst (injectStreamOptions streamPayload))
                     else None)"

definition toyMarshal :: "nat payload \<Rightarrow> bytes option" where
  "toyMarshal p = Some injectedBody"

definition streamRequest :: request where
  "streamRequest = demoRequest\<lparr>Body_req := streamBody, ContentLength_req := 15\<rparr>"

definition demoFileHeader :: fileHeader where
  "demoFileHeader = \<lparr>Version_fh = ''LLM_PROXY_V2'', ReqHeaderLen_fh = 3, ReqBodyLen_fh = 2,
                      ResHeaderLen_fh = 4, ResBodyLen_fh = 2\<rparr>"

definition toyUnmarshalHeader :: "bytes \<Rightarrow> fileHeader option" where
  "toyUnmarshalHeader b = (if prefix ''{'' b then Some demoFileHeader else None)"

definition toyReadResponse :: "bytes \<Rightarrow> bytes option" where
  "toyReadResponse b = (if prefix ''HTTP'' b then Some b else None)"

definition replayFile :: bytes where
  "replayFile = ''{}'' @ replicate 2045 (CHR '' '') @ [CHR 0x0A] @ ''GETab'' @ [CHR 0x0A] @ ''HTTPok''"











section \<open>Verified properties\<close>

subsection \<open>The instrumented response writer\<close>

lemma rwsteps_no_write:
  "\<not> list_ex isWrite calls \<Longrightarrow>
     ttft (foldl rwstep rw calls) = ttft rw \<and> firstByte (foldl rwstep rw calls) = firstByte rw"
proof (induction calls arbitrary: rw)
  case Nil
  then show ?case by simp
next
  case (Cons c cs)
  then show ?case by (cases c) simp_all
qed

lemma rwsteps_no_header:
  "\<not> list_ex isWriteHeader calls \<Longrightarrow> statusCode (foldl rwstep rw calls) = statusCode rw"
proof (induction calls arbitrary: rw)
  case Nil
  then show ?case by simp
next
  case (Cons c cs)
  then show ?case by (cases c) (simp_all add: Let_def)
qed

text \<open>
  Claim C10.  Whatever sequence of \<^verbatim>\<open>WriteHeader\<close>, \<^verbatim>\<open>Write\<close> and \<^verbatim>\<open>Flush\<close> calls a
  fresh writer receives: if \<^verbatim>\<open>Write\<close> is never among them, the TTFT that \<^verbatim>\<open>GetMetrics\<close>
  hands to the header finalisation is \<open>-1\<close> (not \<open>0\<close>); if \<^verbatim>\<open>WriteHeader\<close> is never among
  them, the reported status code is \<open>200\<close>.
\<close>

theorem irw_metrics:
  "(\<not> list_ex isWrite calls \<longrightarrow> snd (snd (GetMetrics (foldl rwstep NewInstrumentedResponseWriter calls))) = - 1)
 \<and> (\<not> list_ex isWriteHeader calls \<longrightarrow> fst (GetMetrics (foldl rwstep NewInstrumentedResponseWriter calls)) = 200)"
  using rwsteps_no_write[of calls NewInstrumentedResponseWriter] rwsteps_no_header[of calls NewInstrumentedResponseWriter]
  by (simp add: GetMetrics_def NewInstrumentedResponseWriter_def)

text \<open>The same at two concrete call sequences: only a flush, and a write with no header call.\<close>

theorem irw_metrics_witness:
  "\<not> list_ex isWrite [Flush] \<and> snd (snd (GetMetrics (foldl rwstep NewInstrumentedResponseWriter [Flush]))) = - 1
 \<and> \<not> list_ex isWriteHeader [Write 12 5, Flush] \<and> fst (GetMetrics (foldl rwstep NewInstrumentedResponseWriter [Write 12 5, Flush])) = 200"
  using irw_metrics[of "[Flush]"] irw_metrics[of "[Write 12 5, Flush]"] by simp

subsection \<open>The header block of UpdateLogFile\<close>

lemma length_finalBlock: "length (finalBlock js) = 2048"
  by (simp add: finalBlock_def copy_def HeaderLen_def Let_def)

lemma finalBlock_short:
  assumes "length js \<le> 2047"
  shows "finalBlock js = js @ replicate (2047 - length js) (CHR '' '') @ [CHR 0x0A]"
proof -
  have "(2048::nat) = length js + Suc (2047 - length js)" using assms by simp
  then have "replicate 2048 (CHR '' '') = replicate (length js + Suc (2047 - length js)) (CHR '' '')"
    by simp
  also have "\<dots> = replicate (length js) (CHR '' '') @ replicate (Suc (2047 - length js)) (CHR '' '')"
    by (rule replicate_add)
  also have "replicate (Suc (2047 - length js)) (CHR '' '') = replicate (2047 - length js) (CHR '' '') @ [CHR '' '']"
    by (simp add: replicate_append_same)
  finally have r: "replicate 2048 (CHR '' '') = replicate (length js) (CHR '' '') @ replicate (2047 - length js) (CHR '' '') @ [CHR '' '']" .
  show ?thesis using assms 
    by (simp add: finalBlock_def copy_def HeaderLen_def Let_def min_def r list_update_append)
qed

lemma finalBlock_long:
  assumes "length js > 2047"
  shows "finalBlock js = take 2047 js @ [CHR 0x0A]"
  using assms
  apply (simp add: finalBlock_def copy_def HeaderLen_def Let_def min_def list_update_append)
  done

lemma UpdateLogFile_open:
  assumes "File info = Some f" "\<not> closed f" "marshal (Header info) = Inr js"
  shows "UpdateLogFile marshal info =
     (info\<lparr>File := Some (f\<lparr>content := finalBlock js @ drop 2048 (content f), pos := 2048, closed := True\<rparr>)\<rparr>, None)"
  using assms
  by (simp add: UpdateLogFile_def FileSeek_def FileWrite_def FileClose_def Let_def length_finalBlock)


lemma last_finalBlock: "finalBlock js ! 2047 = CHR 0x0A"
  by (simp add: finalBlock_def copy_def HeaderLen_def Let_def)

text \<open>
  Claim C4.  For every header state whose serialisation succeeds, \<^verbatim>\<open>UpdateLogFile\<close> on an open
  file returns no error and overwrites the bytes at offsets \<open>0 .. 2047\<close> with a block of exactly
  2048 bytes (the rest of the file is kept, the handle is closed).  The last byte of the block is
  the newline.  A serialised header of at most 2047 bytes is stored verbatim, followed by spaces;
  a longer one is cut to its first 2047 bytes, and the last byte is still the newline.
\<close>

theorem UpdateLogFile_header_block:
  assumes "File info = Some f" and "\<not> closed f" and "marshal (Header info) = Inr js"
  shows "snd (UpdateLogFile marshal info) = None
    \<and> File (fst (UpdateLogFile marshal info))
        = Some (f\<lparr>content := finalBlock js @ drop 2048 (content f), pos := 2048, closed := True\<rparr>)
    \<and> length (finalBlock js) = 2048
    \<and> finalBlock js ! 2047 = CHR 0x0A
    \<and> finalBlock js = (if length js \<le> 2047 then js @ replicate (2047 - length js) (CHR '' '') @ [CHR 0x0A]
                       else take 2047 js @ [CHR 0x0A])"
  using assms
  by (simp add: UpdateLogFile_open length_finalBlock last_finalBlock finalBlock_short finalBlock_long)

text \<open>A 26-byte header and a 3000-byte header, written over a small record file.\<close>

theorem UpdateLogFile_header_block_witness:
  "File demoInfo = Some demoFile \<and> \<not> closed demoFile
   \<and> demoMarshal (Header demoInfo) = Inr ''{\"version\":\"LLM_PROXY_V2\"}''
   \<and> snd (UpdateLogFile demoMarshal demoInfo) = None
   \<and> File (fst (UpdateLogFile demoMarshal demoInfo))
       = Some \<lparr>content = ''{\"version\":\"LLM_PROXY_V2\"}'' @ replicate 2021 (CHR '' '') @ [CHR 0x0A]
                           @ ''GETab'' @ [CHR 0x0A] @ ''HTTPok'', pos = 2048, closed = True\<rparr>
   \<and> longMarshal (Header demoInfo) = Inr (replicate 3000 (CHR ''x''))
   \<and> File (fst (UpdateLogFile longMarshal demoInfo))
       = Some \<lparr>content = replicate 2047 (CHR ''x'') @ [CHR 0x0A] @ ''GETab'' @ [CHR 0x0A] @ ''HTTPok'',
                pos = 2048, closed = True\<rparr>"
proof -
  have a: "File demoInfo = Some demoFile" by (simp add: demoInfo_def)
  have b: "\<not> closed demoFile" by (simp add: demoFile_def)
  have c: "demoMarshal (Header demoInfo) = Inr ''{\"version\":\"LLM_PROXY_V2\"}''"
    by (simp add: demoMarshal_def demoInfo_def demoHeader_def)
  have d: "longMarshal (Header demoInfo) = Inr (replicate 3000 (CHR ''x''))"
    by (simp add: longMarshal_def)
  have e: "drop 2048 (content demoFile) = ''GETab'' @ [CHR 0x0A] @ ''HTTPok''"
    by (simp add: demoFile_def)
  have g: "demoFile\<lparr>content := x, pos := 2048, closed := True\<rparr> = \<lparr>content = x, pos = 2048, closed = True\<rparr>" for x
    by (simp add: demoFile_def)
  show ?thesis
    using UpdateLogFile_header_block[where marshal=demoMarshal, OF a b c]
      UpdateLogFile_header_block[where marshal=longMarshal, OF a b d] a b c d e g
    by simp
qed




subsection \<open>ModifyResponse and the choice of parser\<close>






subsection \<open>The bytes of a record file\<close>

lemma InfoWrite_tracks:
  assumes "tracks info c"
  shows "\<exists>info'. InfoWrite info b = (info', length b, None) \<and> tracks info' (c @ b) \<and> Header info' = Header info"
  using assms
  by (auto simp: tracks_def InfoWrite_def FileWrite_def Let_def split: option.splits)

lemma length_padding: "length padding = 2048"
  by (simp add: padding_def HeaderLen_def)

lemma PrepareLogFile_ok:
  assumes "MkdirAll env (fst (logPathOf r env siteURL (modelNameOf env req))) = None"
    and "Create env (snd (logPathOf r env siteURL (modelNameOf env req))) = None"
  shows "\<exists>info. PrepareLogFile r env req siteURL = Inr (info, snd (maskedDump r req))
     \<and> tracks info (padding @ fst (maskedDump r req) @ Body_req req)
     \<and> Layout (Header info) = \<lparr>ReqHeaderLen = int (length (fst (maskedDump r req))),
           ReqBodyLen = int (length (Body_req req)), ResHeaderLen = 0, ResBodyLen = 0, IsStream = False\<rparr>
     \<and> Usage (Header info) = zeroUsage
     \<and> Model (Meta (Header info)) = modelNameOf env req"
  using assms
  by (cases "logPathOf r env siteURL (modelNameOf env req)"; cases "maskedDump r req")
     (simp add: PrepareLogFile_def FileWrite_def Let_def tracks_def zeroLayout_def length_padding)

lemma ModifyResponse_tracks:
  assumes "tracks info c"
  shows "tracks (fst (ModifyResponse info resp)) (c @ [CHR 0x0A] @ responseHead resp)
    \<and> Layout (Header (fst (ModifyResponse info resp)))
        = (Layout (Header info))\<lparr>ResHeaderLen := int (length (responseHead resp)),
             IsStream := IsStream (Layout (Header info)) \<or> isStreamResponse resp\<rparr>
    \<and> Usage (Header (fst (ModifyResponse info resp))) = Usage (Header info)
    \<and> Meta (Header (fst (ModifyResponse info resp))) = Meta (Header info)"
proof -
  obtain i1 where 1: "InfoWrite info [CHR 0x0A] = (i1, 1, None)" "tracks i1 (c @ [CHR 0x0A])" "Header i1 = Header info"
    using InfoWrite_tracks[OF assms, of "[CHR 0x0A]"] by auto
  obtain i2 where 2: "InfoWrite i1 (responseHead resp) = (i2, length (responseHead resp), None)"
      "tracks i2 ((c @ [CHR 0x0A]) @ responseHead resp)" "Header i2 = Header i1"
    using InfoWrite_tracks[OF 1(2), of "responseHead resp"] by auto
  show ?thesis using 1 2 by (simp add: ModifyResponse_def Let_def tracks_def)
qed

lemma SnifferRead_tracks:
  assumes "tracks info c"
  shows "tracks (fst (SnifferRead d (info, s) data)) (c @ data)
    \<and> Layout (Header (fst (SnifferRead d (info, s) data)))
        = (Layout (Header info))\<lparr>ResBodyLen := ResBodyLen (Layout (Header info)) + int (length data)\<rparr>
    \<and> Meta (Header (fst (SnifferRead d (info, s) data))) = Meta (Header info)"
proof (cases "data = []")
  case True
  then show ?thesis using assms by (simp add: SnifferRead_def)
next
  case False
  obtain i1 where 1: "InfoWrite info data = (i1, length data, None)" "tracks i1 (c @ data)" "Header i1 = Header info"
    using InfoWrite_tracks[OF assms, of data] by auto
  show ?thesis using False 1 by (simp add: SnifferRead_def Let_def tracks_def split: prod.splits)
qed

lemma SnifferReads_tracks:
  assumes "tracks (fst st) c"
  shows "tracks (fst (foldl (SnifferRead d) st chunks)) (c @ concat chunks)
    \<and> Layout (Header (fst (foldl (SnifferRead d) st chunks)))
        = (Layout (Header (fst st)))\<lparr>ResBodyLen := ResBodyLen (Layout (Header (fst st))) + int (length (concat chunks))\<rparr>
    \<and> Meta (Header (fst (foldl (SnifferRead d) st chunks))) = Meta (Header (fst st))"
  using assms
proof (induction chunks arbitrary: st c)
  case Nil
  then show ?case by simp
next
  case (Cons x xs)
  obtain info s where st: "st = (info, s)" by (cases st)
  have t: "tracks (fst (SnifferRead d st x)) (c @ x)"
    using SnifferRead_tracks[of info c d s x] Cons.prems st by simp
  show ?case
    using Cons.IH[OF t] SnifferRead_tracks[of info c d s x] Cons.prems st
    by simp
qed

lemma copyChunks_fst:
  "fst (foldl (copyChunk lib w) (st, irw, out, k) chunks) = foldl (SnifferRead (decodeChunk lib)) st chunks"
  by (induction chunks arbitrary: st irw out k) (simp_all add: copyChunk_def)

lemma copyChunks_status:
  "statusCode (fst (snd (foldl (copyChunk lib w) (st, irw, out, k) chunks))) = statusCode irw"
  by (induction chunks arbitrary: st irw out k) (simp_all add: copyChunk_def Let_def)

lemma copyChunks_out:
  "fst (snd (snd (foldl (copyChunk lib w) (st, irw, out, k) chunks))) = out @ concat chunks"
  by (induction chunks arbitrary: st irw out k) (simp_all add: copyChunk_def)

lemma SnifferClose_keeps:
  "File (SnifferClose du st) = File (fst st) \<and> Layout (Header (SnifferClose du st)) = Layout (Header (fst st))
   \<and> Meta (Header (SnifferClose du st)) = Meta (Header (fst st))"
  by (cases st) (simp add: SnifferClose_def)




lemma proxyServe_Inr:
  assumes "roundTrip w (Director cfg env req) = Inr (resp, chunks)"
  shows "proxyServe lib cfg env w irw logInfo req =
     ([UpstreamCall (Director cfg env req)],
      fst (snd (foldl (copyChunk lib w) (ModifyResponse logInfo resp, rwstep irw (WriteHeader (StatusCode_resp resp)), [], 0) chunks)),
      SnifferClose (decodeUsage lib) (foldl (SnifferRead (decodeChunk lib)) (ModifyResponse logInfo resp) chunks),
      concat chunks)"
proof -
  let ?F = "foldl (copyChunk lib w) (ModifyResponse logInfo resp, rwstep irw (WriteHeader (StatusCode_resp resp)), [], 0) chunks"
  have a: "fst ?F = foldl (SnifferRead (decodeChunk lib)) (ModifyResponse logInfo resp) chunks"
    by (rule copyChunks_fst)
  have b: "fst (snd (snd ?F)) = concat chunks"
    using copyChunks_out[of lib w "ModifyResponse logInfo resp" "rwstep irw (WriteHeader (StatusCode_resp resp))" "[]" 0 chunks]
    by simp
  obtain st irw1 out k where F: "?F = (st, irw1, out, k)" by (cases ?F) auto
  show ?thesis using assms a b F by (simp add: proxyServe_def Let_def)
qed


lemma ServeHTTP_forwarded:
  assumes mk: "MkdirAll env (fst (logPathOf (recorderOf cfg) env (UpstreamBaseURL cfg) (modelNameOf env (recorded lib r)))) = None"
    and cr: "Create env (snd (logPathOf (recorderOf cfg) env (UpstreamBaseURL cfg) (modelNameOf env (recorded lib r)))) = None"
    and up: "roundTrip w (outgoing lib cfg env r) = Inr (resp, chunks)"
    and ms: "\<And>h. \<exists>js. marshalHeader lib h = Inr js"
  shows "\<exists>info. finalInfo (ServeHTTP lib cfg env w r) = Some info
    \<and> updateErr (ServeHTTP lib cfg env w r) = None
    \<and> StatusCode (Meta (Header info)) = StatusCode_resp resp
    \<and> clientStatus (ServeHTTP lib cfg env w r) = StatusCode_resp resp
    \<and> clientBody (ServeHTTP lib cfg env w r) = concat chunks
    \<and> events (ServeHTTP lib cfg env w r)
        = (let res = Evaluate cfg (EqualFold w) (draws w) (modelNameOf env (recorded lib r))
           in if ShouldInject res \<and> Action_res res = ''delay'' then [Slept (Delay_res res)] else [])
          @ [UpstreamCall (outgoing lib cfg env r)]"
proof -
  let ?rq = "recorded lib r"
  let ?rec = "recorderOf cfg"
  let ?pre = "padding @ fst (maskedDump ?rec ?rq) @ Body_req ?rq"
  obtain info0 where P0: "PrepareLogFile ?rec env ?rq (UpstreamBaseURL cfg) = Inr (info0, snd (maskedDump ?rec ?rq))"
      "tracks info0 ?pre" "Model (Meta (Header info0)) = modelNameOf env ?rq"
    using PrepareLogFile_ok[OF mk cr] by auto
  let ?r2 = "snd (maskedDump ?rec ?rq)"
  have out: "Director cfg env ?r2 = outgoing lib cfg env r" by (simp add: outgoing_def)
  let ?mr = "ModifyResponse info0 resp"
  let ?F = "foldl (copyChunk lib w) (?mr, rwstep NewInstrumentedResponseWriter (WriteHeader (StatusCode_resp resp)), [], 0) chunks"
  let ?fin = "foldl (SnifferRead (decodeChunk lib)) ?mr chunks"
  let ?ia = "SnifferClose (decodeUsage lib) ?fin"
  have X: "proxyServe lib cfg env w NewInstrumentedResponseWriter info0 ?r2
      = ([UpstreamCall (outgoing lib cfg env r)], fst (snd ?F), ?ia, concat chunks)"
    using proxyServe_Inr[of w cfg env ?r2 resp chunks lib NewInstrumentedResponseWriter info0] up out by simp
  have sc: "statusCode (fst (snd ?F)) = StatusCode_resp resp"
    using copyChunks_status[of lib w ?mr "rwstep NewInstrumentedResponseWriter (WriteHeader (StatusCode_resp resp))" "[]" 0 chunks]
    by simp
  have m: "tracks (fst ?mr) (?pre @ [CHR 0x0A] @ responseHead resp)"
    using ModifyResponse_tracks[OF P0(2), of resp] by blast
  have s: "tracks (fst ?fin) ((?pre @ [CHR 0x0A] @ responseHead resp) @ concat chunks)"
    using SnifferReads_tracks[OF m, of "decodeChunk lib" chunks] by blast
  have c: "File ?ia = File (fst ?fin)"
    using SnifferClose_keeps[of "decodeUsage lib" ?fin] by simp
  let ?ib = "?ia\<lparr>Header := (Header ?ia)\<lparr>Meta := (Meta (Header ?ia))
        \<lparr>StatusCode := statusCode (fst (snd ?F)), DurationMs := durationMs w,
         TTFTMs := ttft (fst (snd ?F)), ContentLength := bytesWritten (fst (snd ?F))\<rparr>\<rparr>\<rparr>"
  obtain f1 where f1: "File ?ib = Some f1" "\<not> closed f1"
    using s c by (auto simp: tracks_def split: option.splits)
  obtain js where js: "marshalHeader lib (Header ?ib) = Inr js" using ms by blast
  have U: "UpdateLogFile (marshalHeader lib) ?ib
     = (?ib\<lparr>File := Some (f1\<lparr>content := finalBlock js @ drop 2048 (content f1), pos := 2048, closed := True\<rparr>)\<rparr>, None)"
    using UpdateLogFile_open[where marshal="marshalHeader lib", OF f1(1) f1(2) js] .
  have S: "ServeHTTP lib cfg env w r =
     \<lparr>events = (let res = Evaluate cfg (EqualFold w) (draws w) (modelNameOf env ?rq)
           in if ShouldInject res \<and> Action_res res = ''delay'' then [Slept (Delay_res res)] else [])
          @ [UpstreamCall (outgoing lib cfg env r)],
      clientStatus = statusCode (fst (snd ?F)), clientBody = concat chunks,
      finalInfo = Some (?ib\<lparr>File := Some (f1\<lparr>content := finalBlock js @ drop 2048 (content f1), pos := 2048, closed := True\<rparr>)\<rparr>),
      updateErr = None\<rparr>"
    using P0(1) P0(3) X U
    by (simp add: ServeHTTP_def recorded_def[symmetric] recorderOf_def[symmetric] Let_def GetMetrics_def )
  show ?thesis using S sc by simp
qed




subsection \<open>Chaos injection\<close>

lemma fireRule_error_defaults:
  "ShouldInject (fireRule rule) \<and> Action_res (fireRule rule) = Action rule
   \<and> (Action rule = ''error'' \<longrightarrow>
        StatusCode_res (fireRule rule) = (if StatusCode_rule rule = 0 then 500 else StatusCode_rule rule)
      \<and> Message_res (fireRule rule) = (if Message rule = [] then ''Chaos Injection Error'' else Message rule))"
  by (simp add: fireRule_def Let_def)

lemma evalRules_error_defaults:
  assumes "ShouldInject (evalRules ef d i rules m)" and "Action_res (evalRules ef d i rules m) = ''error''"
  shows "StatusCode_res (evalRules ef d i rules m) \<noteq> 0 \<and> Message_res (evalRules ef d i rules m) \<noteq> []"
  using assms
proof (induction rules arbitrary: i)
  case Nil
  then show ?case by (simp add: noInject_def)
next
  case (Cons rule rules)
  then show ?case
    using fireRule_error_defaults[of rule]
    by (auto split: if_splits)
qed

text \<open>
  Claim C3.  \<^verbatim>\<open>Evaluate\<close> does what the claim says: a firing rule with action \<^verbatim>\<open>error\<close> yields
  a non-zero status code and a non-empty message (500 and \<^verbatim>\<open>Chaos Injection Error\<close> when the
  rule leaves them unset).  \<^verbatim>\<open>ServeHTTP\<close> does not: it acts on the \<^verbatim>\<open>delay\<close> action only, so
  with a fired \<^verbatim>\<open>error\<close> rule the request is still sent upstream, and the client and the
  record header get the upstream's status, not the rule's.
\<close>

theorem chaos_error_still_forwards:
  assumes mk: "MkdirAll env (fst (logPathOf (recorderOf cfg) env (UpstreamBaseURL cfg) (modelNameOf env (recorded lib r)))) = None"
    and cr: "Create env (snd (logPathOf (recorderOf cfg) env (UpstreamBaseURL cfg) (modelNameOf env (recorded lib r)))) = None"
    and up: "roundTrip w (outgoing lib cfg env r) = Inr (resp, chunks)"
    and ms: "\<And>h. \<exists>js. marshalHeader lib h = Inr js"
    and inject: "ShouldInject (Evaluate cfg (EqualFold w) (draws w) (modelNameOf env (recorded lib r)))"
    and action: "Action_res (Evaluate cfg (EqualFold w) (draws w) (modelNameOf env (recorded lib r))) = ''error''"
  shows "StatusCode_res (Evaluate cfg (EqualFold w) (draws w) (modelNameOf env (recorded lib r))) \<noteq> 0
    \<and> Message_res (Evaluate cfg (EqualFold w) (draws w) (modelNameOf env (recorded lib r))) \<noteq> []
    \<and> events (ServeHTTP lib cfg env w r) = [UpstreamCall (outgoing lib cfg env r)]
    \<and> clientStatus (ServeHTTP lib cfg env w r) = StatusCode_resp resp
    \<and> clientBody (ServeHTTP lib cfg env w r) = concat chunks
    \<and> (\<exists>info. finalInfo (ServeHTTP lib cfg env w r) = Some info
          \<and> StatusCode (Meta (Header info)) = StatusCode_resp resp)"
proof -
  let ?res = "Evaluate cfg (EqualFold w) (draws w) (modelNameOf env (recorded lib r))"
  have en: "ChaosEnabled cfg" using inject by (auto simp: Evaluate_def noInject_def split: if_splits)
  have d: "StatusCode_res ?res \<noteq> 0 \<and> Message_res ?res \<noteq> []"
    using evalRules_error_defaults[of "EqualFold w" "draws w" 0 "ChaosRules cfg" "modelNameOf env (recorded lib r)"]
      inject action en by (simp add: Evaluate_def)
  have nd: "\<not> (ShouldInject ?res \<and> Action_res ?res = ''delay'')" using action by simp
  show ?thesis
    using ServeHTTP_forwarded[OF mk cr up ms] d nd by (auto simp: Let_def)
qed

text \<open>
  The scenario of the specification: chaos enabled with the rule
  \<^verbatim>\<open>{model: "*", rate: 1.0, action: "error", status_code: 429}\<close>, and an upstream that answers
  200.  The rule fires with status 429, the upstream is called, and 200 is returned and
  recorded.
\<close>

theorem chaos_error_still_forwards_witness:
  "ShouldInject (Evaluate chaosConfig (EqualFold demoWorld) (draws demoWorld) (modelNameOf demoEnv (recorded demoLib demoRequest)))
   \<and> Action_res (Evaluate chaosConfig (EqualFold demoWorld) (draws demoWorld) (modelNameOf demoEnv (recorded demoLib demoRequest))) = ''error''
   \<and> StatusCode_res (Evaluate chaosConfig (EqualFold demoWorld) (draws demoWorld) (modelNameOf demoEnv (recorded demoLib demoRequest))) = 429
   \<and> events (ServeHTTP demoLib chaosConfig demoEnv demoWorld demoRequest)
        = [UpstreamCall (outgoing demoLib chaosConfig demoEnv demoRequest)]
   \<and> clientStatus (ServeHTTP demoLib chaosConfig demoEnv demoWorld demoRequest) = 200
   \<and> clientBody (ServeHTTP demoLib chaosConfig demoEnv demoWorld demoRequest) = ''{\"id\":1}''
   \<and> (\<exists>info. finalInfo (ServeHTTP demoLib chaosConfig demoEnv demoWorld demoRequest) = Some info
          \<and> StatusCode (Meta (Header info)) = 200)"
proof -
  have mk: "MkdirAll demoEnv p = None" for p by (simp add: demoEnv_def)
  have cr: "Create demoEnv p = None" for p by (simp add: demoEnv_def)
  have up: "roundTrip demoWorld q = Inr (demoResponse, [''{\"id\":'', ''1}''])" for q
    by (simp add: demoWorld_def)
  have ms: "\<exists>js. marshalHeader demoLib h = Inr js" for h
    by (simp add: demoLib_def demoMarshal_def)
  have e: "Evaluate chaosConfig (EqualFold demoWorld) (draws demoWorld) m
      = fireRule \<lparr>Model_rule = ''*'', Rate = 1, Action = ''error'', Delay = 0, StatusCode_rule = 429, Message = []\<rparr>" for m
    by (simp add: Evaluate_def chaosConfig_def demoConfig_def demoWorld_def)
  have f: "ShouldInject (Evaluate chaosConfig (EqualFold demoWorld) (draws demoWorld) m)"
     "Action_res (Evaluate chaosConfig (EqualFold demoWorld) (draws demoWorld) m) = ''error''"
     "StatusCode_res (Evaluate chaosConfig (EqualFold demoWorld) (draws demoWorld) m) = 429" for m
    by (simp_all add: e fireRule_def Let_def)
  have st: "StatusCode_resp demoResponse = 200" by (simp add: demoResponse_def)
  show ?thesis
    using chaos_error_still_forwards[of demoEnv chaosConfig demoLib demoRequest demoWorld demoResponse
        "[''{\"id\":'', ''1}'']", OF mk cr up ms f(1) f(2)] f st
    by simp
qed

subsection \<open>Key masking in PrepareLogFile\<close>















subsection \<open>The stream-options injector\<close>

lemma inject_idem:
  "injectStreamOptions (fst (injectStreamOptions p)) = (fst (injectStreamOptions p), False)"
  by (auto simp: injectStreamOptions_def split: option.splits json.splits bool.splits)

lemma inject_keeps_stream: "fst (injectStreamOptions p) ''stream'' = p ''stream''"
  by (auto simp: injectStreamOptions_def split: option.splits json.splits bool.splits)

lemma inject_not_updated:
  "p ''stream_options'' = Some (JObject opts) \<Longrightarrow> opts ''include_usage'' = Some (JBool True)
     \<Longrightarrow> injectStreamOptions p = (p, False)"
  by (simp add: injectStreamOptions_def)

lemma ensure_fixed:
  assumes "unmarshal (Body_req req) = Some p" and "injectStreamOptions p = (p, False)"
  shows "ensureStreamOptions unmarshal marshal req = req"
  using assms
  by (simp add: ensureStreamOptions_def split: option.splits json.splits bool.splits)

lemma ensure_injected:
  assumes "Method_req req = ''POST''"
    and "sublist ''application/json'' (HeaderGet (Header_req req) ''Content-Type'')"
    and "unmarshal (Body_req req) = Some p" and "p ''stream'' = Some (JBool True)"
    and "injectStreamOptions p = (p', True)" and "marshal p' = Some b"
  shows "ensureStreamOptions unmarshal marshal req
     = req\<lparr>Header_req := HeaderSet (Header_req req) ''Content-Length'' (Sprint (length b)),
           Body_req := b, ContentLength_req := int (length b)\<rparr>"
  using assms by (simp add: ensureStreamOptions_def)

text \<open>
  Claim C6.  Applying \<^verbatim>\<open>ensureStreamOptions\<close> twice gives the same request (body bytes,
  \<^verbatim>\<open>Content-Length\<close> header and field) as applying it once; and a body whose payload already has
  \<^verbatim>\<open>stream_options.include_usage == true\<close> is left unchanged.  The JSON codec is a parameter;
  what is asked of it is that the body it serialises for this request's injected payload
  decodes to that payload again.
\<close>

theorem ensureStreamOptions_idempotent:
  assumes rt: "\<And>p b. unmarshal (Body_req req) = Some p \<Longrightarrow> marshal (fst (injectStreamOptions p)) = Some b
                 \<Longrightarrow> unmarshal b = Some (fst (injectStreamOptions p))"
  shows "ensureStreamOptions unmarshal marshal (ensureStreamOptions unmarshal marshal req)
           = ensureStreamOptions unmarshal marshal req
    \<and> (\<forall>p opts. unmarshal (Body_req req) = Some p \<and> p ''stream_options'' = Some (JObject opts)
           \<and> opts ''include_usage'' = Some (JBool True)
         \<longrightarrow> ensureStreamOptions unmarshal marshal req = req)"
proof
  let ?E = "ensureStreamOptions unmarshal marshal"
  show "?E (?E req) = ?E req"
  proof (cases "?E req = req")
    case True
    then show ?thesis by simp
  next
    case False
    then obtain p where p: "unmarshal (Body_req req) = Some p"
      by (auto simp: ensureStreamOptions_def split: option.splits if_splits)
    have guard: "Method_req req = ''POST''" "sublist ''application/json'' (HeaderGet (Header_req req) ''Content-Type'')"
      using False by (auto simp: ensureStreamOptions_def split: if_splits)
    have st: "p ''stream'' = Some (JBool True)"
      using False p guard by (auto simp: ensureStreamOptions_def split: option.splits json.splits bool.splits)
    obtain p' u where i: "injectStreamOptions p = (p', u)" by (cases "injectStreamOptions p")
    have u: "u" using False p guard st i by (auto simp: ensureStreamOptions_def split: if_splits)
    obtain b where b: "marshal p' = Some b"
      using False p guard st i u by (auto simp: ensureStreamOptions_def split: option.splits)
    have E: "?E req = req\<lparr>Header_req := HeaderSet (Header_req req) ''Content-Length'' (Sprint (length b)),
                           Body_req := b, ContentLength_req := int (length b)\<rparr>"
      using ensure_injected[where unmarshal=unmarshal and marshal=marshal, OF guard p st _ b] i u by simp
    have ub: "unmarshal b = Some p'" using rt[OF p, of b] i b by simp
    have fx: "injectStreamOptions p' = (p', False)" using inject_idem[of p] i by simp
    have "?E (?E req) = ?E req"
      using ensure_fixed[of unmarshal "?E req" p' marshal] ub fx E by simp
    then show ?thesis .
  qed
next
  show "\<forall>p opts. unmarshal (Body_req req) = Some p \<and> p ''stream_options'' = Some (JObject opts)
           \<and> opts ''include_usage'' = Some (JBool True)
         \<longrightarrow> ensureStreamOptions unmarshal marshal req = req"
    using ensure_fixed inject_not_updated by blast
qed

text \<open>
  The body \<^verbatim>\<open>{"stream":true}\<close>: the first application injects the option (55 bytes), the
  second changes nothing.
\<close>

theorem ensureStreamOptions_idempotent_witness:
  "Body_req (ensureStreamOptions toyUnmarshal toyMarshal streamRequest) = injectedBody
   \<and> ContentLength_req (ensureStreamOptions toyUnmarshal toyMarshal streamRequest) = 55
   \<and> ensureStreamOptions toyUnmarshal toyMarshal (ensureStreamOptions toyUnmarshal toyMarshal streamRequest)
        = ensureStreamOptions toyUnmarshal toyMarshal streamRequest"
proof -
  have ne: "streamBody \<noteq> injectedBody" by (simp add: streamBody_def injectedBody_def)
  have body: "Body_req streamRequest = streamBody" by (simp add: streamRequest_def)
  have rt: "toyUnmarshal (Body_req streamRequest) = Some p \<Longrightarrow> toyMarshal (fst (injectStreamOptions p)) = Some b
                 \<Longrightarrow> toyUnmarshal b = Some (fst (injectStreamOptions p))" for p b
    using ne by (auto simp: body toyUnmarshal_def toyMarshal_def)
  have ct: "HeaderGet (Header_req streamRequest) ''Content-Type'' = ''application/json''"
    by (simp add: streamRequest_def demoRequest_def HeaderGet_def)
  have inj: "injectStreamOptions streamPayload
      = (streamPayload(''stream_options'' \<mapsto> JObject [''include_usage'' \<mapsto> JBool True]), True)"
    by (simp add: injectStreamOptions_def streamPayload_def)
  have meth: "Method_req streamRequest = ''POST''" by (simp add: streamRequest_def demoRequest_def)
  have um: "toyUnmarshal streamBody = Some streamPayload" by (simp add: toyUnmarshal_def)
  have sp: "streamPayload ''stream'' = Some (JBool True)" by (simp add: streamPayload_def)
  have tm: "toyMarshal q = Some injectedBody" for q by (simp add: toyMarshal_def)
  have len: "length injectedBody = 55" by (simp add: injectedBody_def)
  have sub: "sublist ''application/json'' ''application/json''" by simp
  have ct': "sublist ''application/json'' (HeaderGet (Header_req streamRequest) ''Content-Type'')"
    by (simp add: ct)
  have um': "toyUnmarshal (Body_req streamRequest) = Some streamPayload" by (simp add: body um)
  have E: "Body_req (ensureStreamOptions toyUnmarshal toyMarshal streamRequest) = injectedBody
     \<and> ContentLength_req (ensureStreamOptions toyUnmarshal toyMarshal streamRequest) = 55"
    using ensure_injected[where unmarshal=toyUnmarshal and marshal=toyMarshal, OF meth ct' um' sp inj tm] len by simp
  show ?thesis
    using ensureStreamOptions_idempotent[where unmarshal=toyUnmarshal and marshal=toyMarshal and req=streamRequest, OF rt] E by blast
qed

subsection \<open>The replay transport\<close>

lemma IndexByte_none: "c \<notin> set xs \<Longrightarrow> IndexByte xs c = - 1"
  by (induction xs) auto

lemma IndexByte_first: "c \<notin> set pre \<Longrightarrow> IndexByte (pre @ c # post) c = int (length pre)"
  by (induction pre) (auto simp: Let_def)

lemma wrap64_id: "- (2 ^ 63) \<le> x \<Longrightarrow> x < 2 ^ 63 \<Longrightarrow> wrap64 x = x"
  by (simp add: wrap64_def)

text \<open>
  Claim C2.  For every record file (2048 bytes or more) the round trip decides on the first 2048
  bytes alone: with no newline among them it returns an error; otherwise the bytes before the
  first newline are decoded as the header, and an invalid header is an error; otherwise, with
  \<open>off = 2048 + req_header_len + req_body_len + 1\<close> from the decoded header, the response is
  parsed from the bytes of the file at offset \<open>off\<close> onwards (the seek to a negative \<open>off\<close> fails).
\<close>

theorem RoundTrip_replay:
  assumes len: "length f \<ge> 2048"
  shows "(CHR 0x0A \<notin> set (take 2048 f) \<longrightarrow> RoundTrip unmarshalHeader ReadResponse (Some f) = Inl ErrNoNewline)
    \<and> (\<forall>pre post. take 2048 f = pre @ CHR 0x0A # post \<and> CHR 0x0A \<notin> set pre \<longrightarrow>
          (case unmarshalHeader pre of
             None \<Rightarrow> RoundTrip unmarshalHeader ReadResponse (Some f) = Inl ErrHeaderJSON
           | Some meta \<Rightarrow>
               (let off = 2048 + ReqHeaderLen_fh meta + ReqBodyLen_fh meta + 1 in
                (0 \<le> off \<and> off < 2 ^ 63 \<longrightarrow>
                   RoundTrip unmarshalHeader ReadResponse (Some f)
                     = (case ReadResponse (drop (nat off) f) of None \<Rightarrow> Inl ErrParseResponse | Some resp \<Rightarrow> Inr resp))
              \<and> (- (2 ^ 63) \<le> off \<and> off < 0 \<longrightarrow>
                   RoundTrip unmarshalHeader ReadResponse (Some f) = Inl ErrSeek))))"
proof (intro conjI allI impI)
  assume "CHR 0x0A \<notin> set (take 2048 f)"
  then show "RoundTrip unmarshalHeader ReadResponse (Some f) = Inl ErrNoNewline"
    using len by (simp add: RoundTrip_def HeaderLen_def IndexByte_none)
next
  fix pre post
  assume a: "take 2048 f = pre @ CHR 0x0A # post \<and> CHR 0x0A \<notin> set pre"
  then have idx: "IndexByte (take 2048 f) (CHR 0x0A) = int (length pre)"
    using IndexByte_first[of "CHR 0x0A" pre post] by simp
  have pre: "take (length pre) (take 2048 f) = pre" using a by simp
  show "case unmarshalHeader pre of
             None \<Rightarrow> RoundTrip unmarshalHeader ReadResponse (Some f) = Inl ErrHeaderJSON
           | Some meta \<Rightarrow>
               (let off = 2048 + ReqHeaderLen_fh meta + ReqBodyLen_fh meta + 1 in
                (0 \<le> off \<and> off < 2 ^ 63 \<longrightarrow>
                   RoundTrip unmarshalHeader ReadResponse (Some f)
                     = (case ReadResponse (drop (nat off) f) of None \<Rightarrow> Inl ErrParseResponse | Some resp \<Rightarrow> Inr resp))
              \<and> (- (2 ^ 63) \<le> off \<and> off < 0 \<longrightarrow>
                   RoundTrip unmarshalHeader ReadResponse (Some f) = Inl ErrSeek))"
  proof (cases "unmarshalHeader pre")
    case None
    then show ?thesis using len idx pre by (simp add: RoundTrip_def HeaderLen_def)
  next
    case (Some meta)
    let ?off = "2048 + ReqHeaderLen_fh meta + ReqBodyLen_fh meta + 1"
    have R: "RoundTrip unmarshalHeader ReadResponse (Some f)
        = (if wrap64 ?off < 0 then Inl ErrSeek
           else (case ReadResponse (drop (nat (wrap64 ?off)) f) of None \<Rightarrow> Inl ErrParseResponse | Some resp \<Rightarrow> Inr resp))"
      using len idx pre Some by (simp add: RoundTrip_def HeaderLen_def Let_def)
    have w1: "0 \<le> ?off \<and> ?off < 2 ^ 63 \<Longrightarrow> wrap64 ?off = ?off" using wrap64_id[of ?off] by simp
    have w2: "- (2 ^ 63) \<le> ?off \<and> ?off < 0 \<Longrightarrow> wrap64 ?off = ?off" using wrap64_id[of ?off] by simp
    show ?thesis using Some R w1 w2 by (simp add: Let_def)
  qed
qed

text \<open>
  A small record file: header \<^verbatim>\<open>{}\<close> padded to 2048 bytes, a 3-byte dump, a 2-byte body, the
  delimiter, and a response; the response is parsed at offset 2054.
\<close>

theorem RoundTrip_replay_witness:
  "length replayFile \<ge> 2048
   \<and> take 2048 replayFile = (''{}'' @ replicate 2045 (CHR '' '')) @ CHR 0x0A # []
   \<and> CHR 0x0A \<notin> set (''{}'' @ replicate 2045 (CHR '' ''))
   \<and> toyUnmarshalHeader (''{}'' @ replicate 2045 (CHR '' '')) = Some demoFileHeader
   \<and> RoundTrip toyUnmarshalHeader toyReadResponse (Some replayFile) = Inr ''HTTPok''"
proof -
  let ?pre = "''{}'' @ replicate 2045 (CHR '' '')"
  have len: "length replayFile \<ge> 2048" by (simp add: replayFile_def)
  have tk: "take 2048 replayFile = ?pre @ CHR 0x0A # []" by (simp add: replayFile_def)
  have nn: "CHR 0x0A \<notin> set ?pre" by simp
  have um: "toyUnmarshalHeader ?pre = Some demoFileHeader" by (simp add: toyUnmarshalHeader_def)
  have dr: "drop 2054 replayFile = ''HTTPok''" by (simp add: replayFile_def)
  have rr: "toyReadResponse ''HTTPok'' = Some ''HTTPok''" by (simp add: toyReadResponse_def)
  have "case toyUnmarshalHeader ?pre of
             None \<Rightarrow> RoundTrip toyUnmarshalHeader toyReadResponse (Some replayFile) = Inl ErrHeaderJSON
           | Some meta \<Rightarrow>
               (let off = 2048 + ReqHeaderLen_fh meta + ReqBodyLen_fh meta + 1 in
                (0 \<le> off \<and> off < 2 ^ 63 \<longrightarrow>
                   RoundTrip toyUnmarshalHeader toyReadResponse (Some replayFile)
                     = (case toyReadResponse (drop (nat off) replayFile) of None \<Rightarrow> Inl ErrParseResponse | Some resp \<Rightarrow> Inr resp))
              \<and> (- (2 ^ 63) \<le> off \<and> off < 0 \<longrightarrow>
                   RoundTrip toyUnmarshalHeader toyReadResponse (Some replayFile) = Inl ErrSeek))"
    using RoundTrip_replay[OF len, of toyUnmarshalHeader toyReadResponse] tk nn by blast
  then have "RoundTrip toyUnmarshalHeader toyReadResponse (Some replayFile) = Inr ''HTTPok''"
    using um dr rr by (simp add: demoFileHeader_def Let_def)
  then show ?thesis using len tk nn um by blast
qed

subsection \<open>The stream parser\<close>





lemma pendingAcc_append:
  "pendingAcc cur (a @ b) = pendingAcc (pendingAcc cur a) b"
  by (induction a arbitrary: cur) auto


lemma pendingAcc_no_newline: "CHR 0x0A \<notin> set a \<Longrightarrow> pendingAcc cur a = cur @ a"
  by (induction a arbitrary: cur) auto

lemma pendingAcc_clean: "CHR 0x0A \<notin> set cur \<Longrightarrow> CHR 0x0A \<notin> set (pendingAcc cur a)"
  by (induction a arbitrary: cur) auto



lemma pendingLine_resume: "pendingLine (a @ b) = pendingLine (pendingLine a @ b)"
proof -
  have "pendingAcc [] (pendingAcc [] a @ b) = pendingAcc (pendingAcc [] a) b"
    using pendingAcc_append[of "[]" "pendingAcc [] a" b] pendingAcc_clean[of "[]" a]
    by (simp add: pendingAcc_no_newline)
  then show ?thesis by (simp add: pendingLine_def pendingAcc_append)
qed




lemma sniffLine_unmarked: "\<not> sublist usageMark line \<Longrightarrow> sniffLine decode usage line = usage"
  by (simp add: sniffLine_def)




















subsection \<open>The usage of a recorded stream\<close>






end
